theory Spec2Isabelle
  imports Complex_Main
begin

section \<open>Run-time values\<close>

text \<open>
  The analysis service parses the collaborator's reply with \<^verbatim>\<open>JSON.parse\<close> and copies
  fields out of the result behind TypeScript casts (\<^verbatim>\<open>as RiskLevel\<close>, \<^verbatim>\<open>v: any\<close>).
  A cast checks nothing at run time, so the values that flow into an insight, a vital
  reading or a system message are modelled as what they are at run time: JavaScript
  values. Numbers are only carried, never computed with, and are rationals here.
  An object is its list of own properties in insertion order; a read takes the first
  entry for a key.
\<close>

datatype jsval =
    JUndefined
  | JNull
  | JBool bool
  | JNum rat
  | JStr string
  | JArr "jsval list"
  | JObj "(string \<times> jsval) list"

text \<open>JavaScript truthiness, as used by \<^verbatim>\<open>a || b\<close>.\<close>

fun truthy :: "jsval \<Rightarrow> bool" where
  "truthy JUndefined = False"
| "truthy JNull = False"
| "truthy (JBool b) = b"
| "truthy (JNum n) = (n \<noteq> 0)"
| "truthy (JStr s) = (s \<noteq> [])"
| "truthy (JArr xs) = True"
| "truthy (JObj kvs) = True"

definition or_else :: "jsval \<Rightarrow> jsval \<Rightarrow> jsval" where
  "or_else a b = (if truthy a then a else b)"

text \<open>
  \<^verbatim>\<open>data.k\<close>: reading a property of \<^verbatim>\<open>null\<close> or \<^verbatim>\<open>undefined\<close> throws a TypeError
  (\<open>nullish\<close>); on any other value the read succeeds. The service reads only the nine
  field names of its schema, none of which a boolean, number, string or array has, so
  such a read gives \<^verbatim>\<open>undefined\<close>.
\<close>

fun nullish :: "jsval \<Rightarrow> bool" where
  "nullish JUndefined = True"
| "nullish JNull = True"
| "nullish v = False"

fun read_prop :: "jsval \<Rightarrow> string \<Rightarrow> jsval" where
  "read_prop (JObj kvs) k = (case map_of kvs k of Some v \<Rightarrow> v | None \<Rightarrow> JUndefined)"
| "read_prop v k = JUndefined"

text \<open>\<^verbatim>\<open>n.toString()\<close> of a non-negative integer: its decimal digits.\<close>

definition digit_char :: "nat \<Rightarrow> char" where
  "digit_char d = ''0123456789'' ! d"

fun toString :: "nat \<Rightarrow> string" where
  "toString n = (if n < 10 then [digit_char n] else toString (n div 10) @ [digit_char (n mod 10)])"

declare toString.simps [simp del]

text \<open>
  The object spread \<^verbatim>\<open>{...v, timestamp: t}\<close>. The spread copies the own enumerable
  properties of \<open>v\<close>: the entries of an object, the indexed elements of an array, the
  indexed characters of a string, and nothing for the other values. The property
  \<open>timestamp\<close> then overwrites an entry of that name in place or is added last.
  A string is its list of bytes here, so the string case is exact for ASCII strings
  only: JavaScript indexes UTF-16 code units, of which a character outside ASCII has
  fewer than it has bytes. Only a vital that is a bare string takes that case.
\<close>

fun own_props :: "jsval \<Rightarrow> (string \<times> jsval) list" where
  "own_props (JObj kvs) = kvs"
| "own_props (JArr xs) = zip (map toString [0..<length xs]) xs"
| "own_props (JStr s) = zip (map toString [0..<length s]) (map (\<lambda>c. JStr [c]) s)"
| "own_props v = []"

fun put :: "string \<Rightarrow> jsval \<Rightarrow> (string \<times> jsval) list \<Rightarrow> (string \<times> jsval) list" where
  "put k v [] = [(k, v)]"
| "put k v ((k', v') # kvs) = (if k' = k then (k, v) # kvs else (k', v') # put k v kvs)"

definition stamp :: "string \<Rightarrow> jsval \<Rightarrow> jsval" where
  "stamp t v = JObj (put ''timestamp'' (JStr t) (own_props v))"

section \<open>The analysis service (geminiService: analyzePatientInput)\<close>

text \<open>Line numbers in this section are those of \<^verbatim>\<open>src/unnamed/part_004\<close>.\<close>

record ClinicalInsight =
  summary :: jsval
  riskLevel :: jsval
  confidenceScore :: jsval
  reasoning :: jsval
  themes :: jsval
  missingData :: jsval
  clinicalActionSuggestion :: jsval

text \<open>The string enum \<^verbatim>\<open>RiskLevel\<close>: its members are these strings at run time.\<close>

definition RiskLevel_LOW :: jsval where "RiskLevel_LOW = JStr ''LOW''"
definition RiskLevel_MEDIUM :: jsval where "RiskLevel_MEDIUM = JStr ''MEDIUM''"
definition RiskLevel_HIGH :: jsval where "RiskLevel_HIGH = JStr ''HIGH''"
definition RiskLevel_CRITICAL :: jsval where "RiskLevel_CRITICAL = JStr ''CRITICAL''"

record analysis =
  insight :: ClinicalInsight
  vitals :: "jsval list"
  suggestedResponse :: jsval

text \<open>
  What the \<^verbatim>\<open>try\<close> block has when it reaches the mapping code (lines 51 to 80 of the
  service): the call to the collaborator threw or rejected (a transport error, or a
  timeout raised by the client library), or \<^verbatim>\<open>JSON.parse(response.text || "{}")\<close> threw
  a SyntaxError, or it returned a value. The prompt text (message and history digest)
  only reaches the collaborator, so the collaborator's outcome is the input of the model.
  The source sets no timeout of its own: a call that never settles never reaches the
  mapping code or the \<^verbatim>\<open>catch\<close> branch, and is none of the three outcomes.
\<close>

datatype gen_outcome = Rejected | Unparsable | Parsed jsval

text \<open>
  A clock: the \<open>i\<close>-th reading of \<^verbatim>\<open>new Date().toISOString()\<close> in one mapping pass.
  \<open>frozen_clock t\<close> is a clock whose readings all fall in the same instant \<open>t\<close>.
\<close>

definition frozen_clock :: "string \<Rightarrow> nat \<Rightarrow> string" where
  "frozen_clock t i = t"

text \<open>
  \<^verbatim>\<open>(data.extractedVitals || []).map(v => ({...v, timestamp: new Date().toISOString()}))\<close>:
  an array is mapped element by element, each element stamped with a fresh clock
  reading; on any other (truthy) value \<^verbatim>\<open>.map\<close> is not a function and the call
  throws a TypeError (\<open>None\<close>).
\<close>

fun stamp_from :: "(nat \<Rightarrow> string) \<Rightarrow> nat \<Rightarrow> jsval list \<Rightarrow> jsval list" where
  "stamp_from clock i [] = []"
| "stamp_from clock i (v # vs) = stamp (clock i) v # stamp_from clock (Suc i) vs"

fun map_stamp :: "(nat \<Rightarrow> string) \<Rightarrow> jsval \<Rightarrow> jsval list option" where
  "map_stamp clock (JArr vs) = Some (stamp_from clock 0 vs)"
| "map_stamp clock v = None"

text \<open>
  Lines 83 to 102: the mapping of the parsed reply to the result. \<open>None\<close> is a TypeError
  thrown inside the \<^verbatim>\<open>try\<close> block.
\<close>

definition mapData :: "(nat \<Rightarrow> string) \<Rightarrow> jsval \<Rightarrow> analysis option" where
  "mapData clock data =
     (if nullish data then None
      else case map_stamp clock (or_else (read_prop data ''extractedVitals'') (JArr [])) of
        None \<Rightarrow> None
      | Some vs \<Rightarrow> Some
          \<lparr> insight =
              \<lparr> summary = read_prop data ''summary'',
                riskLevel = read_prop data ''riskLevel'',
                confidenceScore = read_prop data ''confidenceScore'',
                reasoning = read_prop data ''reasoning'',
                themes = or_else (read_prop data ''themes'') (JArr []),
                missingData = or_else (read_prop data ''missingData'') (JArr []),
                clinicalActionSuggestion =
                  or_else (read_prop data ''clinicalActionSuggestion'') (JStr ''Monitor'') \<rparr>,
            vitals = vs,
            suggestedResponse =
              or_else (read_prop data ''suggestedResponse'') (JStr ''Received. Updating your care log.'') \<rparr>)"

text \<open>Lines 104 to 120: the \<^verbatim>\<open>catch\<close> branch.\<close>

definition fallback :: analysis where
  "fallback =
     \<lparr> insight =
         \<lparr> summary = JStr ''Error analyzing input. Manual review required.'',
           riskLevel = RiskLevel_MEDIUM,
           confidenceScore = JNum 0,
           reasoning = JArr [JStr ''AI System Error - Fallback''],
           themes = JArr [JStr ''System Error''],
           missingData = JArr [JStr ''Complete analysis failed''],
           clinicalActionSuggestion = JStr ''Manual Review'' \<rparr>,
       vitals = [],
       suggestedResponse =
         JStr ''We have received your message. A care coordinator will review it shortly.'' \<rparr>"

definition analyzePatientInput :: "(nat \<Rightarrow> string) \<Rightarrow> gen_outcome \<Rightarrow> analysis" where
  "analyzePatientInput clock outcome =
     (case outcome of
        Rejected \<Rightarrow> fallback
      | Unparsable \<Rightarrow> fallback
      | Parsed data \<Rightarrow> (case mapData clock data of None \<Rightarrow> fallback | Some r \<Rightarrow> r))"

text \<open>
  The fixed vocabulary of vital types (the \<^verbatim>\<open>type\<close> union of \<^verbatim>\<open>VitalSign\<close>), and the four
  risk levels.
\<close>

definition vital_vocabulary :: "jsval list" where
  "vital_vocabulary =
     [JStr ''BP_SYSTOLIC'', JStr ''BP_DIASTOLIC'', JStr ''GLUCOSE'', JStr ''SPO2'',
      JStr ''HEART_RATE'', JStr ''WEIGHT'', JStr ''TEMP'', JStr ''URINE_OUTPUT'']"

definition known_levels :: "jsval list" where
  "known_levels = [RiskLevel_LOW, RiskLevel_MEDIUM, RiskLevel_HIGH, RiskLevel_CRITICAL]"

section \<open>The data model (types.ts)\<close>

datatype sender = PATIENT | SYSTEM | DOCTOR

datatype kind = TEXT | IMAGE | AUDIO | DOCUMENT

text \<open>
  \<open>mid\<close>, \<open>mtype\<close>, \<open>pid\<close>, \<open>pname\<close>, \<open>uid\<close> and \<open>uname\<close> are the fields \<^verbatim>\<open>id\<close>, \<^verbatim>\<open>type\<close>
  and \<^verbatim>\<open>name\<close> of the source. The content of a message is a run-time value: a system
  reply carries the collaborator's \<^verbatim>\<open>suggestedResponse\<close> unchecked.
\<close>

record Message =
  mid :: string
  sender :: sender
  content :: jsval
  fileName :: "string option"
  timestamp :: string
  mtype :: kind

text \<open>
  The wearable and food-log fields differ between the two versions of the application
  and are never read or written by the pipeline; they live in the extension part of
  the record, which every update below copies unchanged (the spread \<^verbatim>\<open>...p\<close>).
\<close>

record Patient =
  pid :: string
  pname :: string
  age :: int
  assignedDoctorId :: string
  condition :: "string list"
  lastInteraction :: string
  riskStatus :: jsval
  vitalsHistory :: "jsval list"
  messages :: "Message list"
  latestInsight :: "ClinicalInsight option"
  isFlagged :: bool

record User =
  uid :: string
  uname :: string
  role :: sender
  phoneNumber :: string

text \<open>The React state of the \<^verbatim>\<open>App\<close> component.\<close>

record 'a App =
  currentUser :: "User option"
  patients :: "'a Patient_scheme list"
  activePatientId :: "string option"
  isProcessing :: bool

section \<open>State updates of the application with the realtime feed (App, first version)\<close>

text \<open>
  \<^verbatim>\<open>src/unnamed/part_005\<close> holds two versions of the \<^verbatim>\<open>App\<close> component: lines 1 to 286,
  with persistence and the realtime feed (the first version below), and lines 287 to
  583, without them (the second version). Line numbers from here on are those of that
  file.

  Each function below is the updater passed to \<^verbatim>\<open>setPatients\<close>: React applies it to the
  state current at that moment (\<open>prev\<close>).
\<close>

text \<open>
  Lines 104 to 122: the realtime subscription callback. \<open>None\<close> is a payload without a
  \<^verbatim>\<open>new\<close> row, for which the callback returns at once. The row is taken at its declared
  type \<^verbatim>\<open>Message\<close>. A record's \<open>messages\<close> is always an array here, on which
  \<^verbatim>\<open>p.messages ?? []\<close> is \<^verbatim>\<open>p.messages\<close>; \<open>list_ex\<close> is \<^verbatim>\<open>some\<close>.
\<close>

definition onInsert :: "string \<Rightarrow> Message option \<Rightarrow> 'a Patient_scheme list \<Rightarrow> 'a Patient_scheme list" where
  "onInsert activeId payload prev =
     (case payload of
        None \<Rightarrow> prev
      | Some newMsg \<Rightarrow>
          map (\<lambda>p. if pid p \<noteq> activeId then p
                    else if list_ex (\<lambda>m. mid m = mid newMsg) (messages p) then p
                    else p\<lparr>messages := messages p @ [newMsg]\<rparr>) prev)"

text \<open>Lines 161 to 166: the optimistic append.\<close>

definition appendMessage :: "string \<Rightarrow> Message \<Rightarrow> string \<Rightarrow> 'a Patient_scheme list \<Rightarrow> 'a Patient_scheme list" where
  "appendMessage targetId newMessage t prev =
     map (\<lambda>p. if pid p = targetId
               then p\<lparr>messages := messages p @ [newMessage], lastInteraction := t\<rparr>
               else p) prev"

text \<open>Lines 203 to 215: the application of an insight.\<close>

definition applyInsight ::
  "string \<Rightarrow> Message \<Rightarrow> ClinicalInsight \<Rightarrow> jsval list \<Rightarrow> 'a Patient_scheme list \<Rightarrow> 'a Patient_scheme list" where
  "applyInsight targetId systemMsg ins vs prev =
     map (\<lambda>p. if pid p = targetId
               then p\<lparr>messages := messages p @ [systemMsg],
                      riskStatus := riskLevel ins,
                      latestInsight := Some ins,
                      vitalsHistory := vitalsHistory p @ vs,
                      isFlagged := (riskLevel ins = RiskLevel_HIGH \<or> riskLevel ins = RiskLevel_CRITICAL)\<rparr>
               else p) prev"

section \<open>State updates of the application without the feed (App, second version)\<close>

text \<open>
  Here the records are built outside the updater, from the patient object the handler
  captured when it was called, and the updater replaces the record of that id.
\<close>

text \<open>Lines 465 to 469.\<close>

definition updatedPatient :: "'a Patient_scheme \<Rightarrow> Message \<Rightarrow> string \<Rightarrow> 'a Patient_scheme" where
  "updatedPatient targetPatient newMessage t =
     targetPatient\<lparr>messages := messages targetPatient @ [newMessage], lastInteraction := t\<rparr>"

text \<open>Lines 498 to 505.\<close>

definition finalPatient ::
  "'a Patient_scheme \<Rightarrow> Message \<Rightarrow> ClinicalInsight \<Rightarrow> jsval list \<Rightarrow> 'a Patient_scheme" where
  "finalPatient updated systemResponse ins vs =
     updated\<lparr>messages := messages updated @ [systemResponse],
             riskStatus := riskLevel ins,
             latestInsight := Some ins,
             vitalsHistory := vitalsHistory updated @ vs,
             isFlagged := (riskLevel ins = RiskLevel_HIGH \<or> riskLevel ins = RiskLevel_CRITICAL)\<rparr>"

text \<open>Lines 524 to 527.\<close>

definition ackPatient :: "'a Patient_scheme \<Rightarrow> Message \<Rightarrow> 'a Patient_scheme" where
  "ackPatient updated systemResponse = updated\<lparr>messages := messages updated @ [systemResponse]\<rparr>"

text \<open>Lines 471, 507 and 528: \<^verbatim>\<open>prev.map(p => p.id === targetPatient.id ? x : p)\<close>.\<close>

definition replacePatient :: "string \<Rightarrow> 'a Patient_scheme \<Rightarrow> 'a Patient_scheme list \<Rightarrow> 'a Patient_scheme list" where
  "replacePatient targetId x prev = map (\<lambda>p. if pid p = targetId then x else p) prev"

section \<open>The message handler (App: handleMessageSend)\<close>

text \<open>
  Everything a run of the handler reads from outside the React state: the clock
  (\<^verbatim>\<open>Date.now()\<close> in milliseconds and \<^verbatim>\<open>new Date().toISOString()\<close>) at each place the
  source reads it, and the outcome of the collaborator call. Persistence
  (\<^verbatim>\<open>saveMessage\<close>, \<^verbatim>\<open>saveVitals\<close>) writes to the remote store only; its failures are
  caught and logged, and it neither reads nor writes the React state, so it has no part
  in the model.
\<close>

record env =
  now_send :: nat
  iso_send :: string
  iso_touch :: string
  reply :: gen_outcome
  iso_vitals :: "nat \<Rightarrow> string"
  now_reply :: nat
  iso_reply :: string

text \<open>Lines 151 to 158 and 455 to 462 (the same text in both versions).\<close>

definition newMessage :: "env \<Rightarrow> string \<Rightarrow> kind \<Rightarrow> sender \<Rightarrow> string option \<Rightarrow> Message" where
  "newMessage e c ty senderRole fn =
     \<lparr> mid = toString (now_send e), sender = senderRole, content = JStr c, fileName = fn,
       timestamp = iso_send e, mtype = ty \<rparr>"

text \<open>Lines 194 to 200, 490 to 496 and 517 to 523: a system message with content \<open>c\<close>.\<close>

definition systemMessage :: "env \<Rightarrow> jsval \<Rightarrow> Message" where
  "systemMessage e c =
     \<lparr> mid = toString (now_reply e + 1), sender = SYSTEM, content = c, fileName = None,
       timestamp = iso_reply e, mtype = TEXT \<rparr>"

text \<open>
  An \<^verbatim>\<open>async\<close> function returns a promise, which is fulfilled when the body returns and
  rejected when an exception leaves it.
\<close>

datatype settlement = Fulfilled | RejectedWith string

subsection \<open>First version (lines 147 to 238)\<close>

text \<open>
  Line 148: \<^verbatim>\<open>activePatientId || (currentUser?.role === 'PATIENT' ? currentUser.id : null)\<close>,
  and line 149: \<^verbatim>\<open>if (!targetId) return\<close>. The empty string is falsy.
\<close>

definition resolveTarget :: "('a, 'b) App_scheme \<Rightarrow> string option" where
  "resolveTarget st =
     (let fromUser = (case currentUser st of
                        None \<Rightarrow> None
                      | Some u \<Rightarrow> if role u = PATIENT then Some (uid u) else None);
          targetId = (case activePatientId st of
                        None \<Rightarrow> fromUser
                      | Some a \<Rightarrow> if a = [] then fromUser else Some a)
      in if targetId = Some [] then None else targetId)"

text \<open>
  What a call has left to do when it suspends: nothing, the analysis call for a target
  id, or the timer of 1500 ms.
\<close>

datatype pending1 = Done1 | Analysis1 string | Timer1

text \<open>
  The handler up to the point where it returns or suspends on the analysis call or the
  timer. \<open>st\<close> is the state the handler was rendered with, which is the current state
  when the user interface calls it: \<^verbatim>\<open>patients.find\<close> on line 185 reads that captured
  list, not the updated one.
\<close>

definition handleMessageSend1 ::
  "env \<Rightarrow> string \<Rightarrow> kind \<Rightarrow> sender \<Rightarrow> string option \<Rightarrow> ('a, 'b) App_scheme \<Rightarrow> ('a, 'b) App_scheme \<times> pending1" where
  "handleMessageSend1 e c ty senderRole fn st =
     (case resolveTarget st of
        None \<Rightarrow> (st, Done1)
      | Some targetId \<Rightarrow>
          (let st1 = st\<lparr>patients :=
                 appendMessage targetId (newMessage e c ty senderRole fn) (iso_touch e) (patients st)\<rparr>
           in if senderRole = DOCTOR then (st1, Done1)
              else if ty = TEXT then
                (case find (\<lambda>p. pid p = targetId) (patients st) of
                   None \<Rightarrow> (st1\<lparr>isProcessing := False\<rparr>, Done1)
                 | Some patient \<Rightarrow> (st1\<lparr>isProcessing := True\<rparr>, Analysis1 targetId))
              else (st1\<lparr>isProcessing := True\<rparr>, Timer1)))"

text \<open>The continuation: lines 192 to 233 after the analysis call, line 236 for the timer.\<close>

definition resume1 :: "env \<Rightarrow> pending1 \<Rightarrow> ('a, 'b) App_scheme \<Rightarrow> ('a, 'b) App_scheme" where
  "resume1 e pend st =
     (case pend of
        Done1 \<Rightarrow> st
      | Analysis1 targetId \<Rightarrow>
          (let r = analyzePatientInput (iso_vitals e) (reply e)
           in st\<lparr>patients :=
                   applyInsight targetId (systemMessage e (suggestedResponse r)) (insight r) (vitals r)
                     (patients st),
                 isProcessing := False\<rparr>)
      | Timer1 \<Rightarrow> st\<lparr>isProcessing := False\<rparr>)"

text \<open>A whole call with nothing else happening in between, and how its promise settles.\<close>

definition run1 ::
  "env \<Rightarrow> string \<Rightarrow> kind \<Rightarrow> sender \<Rightarrow> string option \<Rightarrow> ('a, 'b) App_scheme \<Rightarrow> settlement \<times> ('a, 'b) App_scheme" where
  "run1 e c ty senderRole fn st =
     (case handleMessageSend1 e c ty senderRole fn st of (st1, pend) \<Rightarrow> (Fulfilled, resume1 e pend st1))"

subsection \<open>Second version (lines 449 to 533)\<close>

text \<open>Lines 420 to 422: the patient object the handler captures.\<close>

definition activePatient :: "('a, 'b) App_scheme \<Rightarrow> 'a Patient_scheme option" where
  "activePatient st =
     (let viaActive = (case activePatientId st of
                         None \<Rightarrow> None
                       | Some a \<Rightarrow> if a = [] then None else find (\<lambda>p. pid p = a) (patients st))
      in case currentUser st of
           None \<Rightarrow> viaActive
         | Some u \<Rightarrow> if role u = PATIENT then find (\<lambda>p. pid p = ''P-1024'') (patients st)
                     else viaActive)"

text \<open>
  What a suspended call holds: the captured \<^verbatim>\<open>targetPatient\<close> and the \<^verbatim>\<open>updatedPatient\<close>
  built from it (and, for the timer, the kind of the upload).
\<close>

datatype 'a pending2 =
    Done2
  | Analysis2 "'a Patient_scheme" "'a Patient_scheme"
  | Timer2 kind "'a Patient_scheme" "'a Patient_scheme"

definition handleMessageSend2 ::
  "env \<Rightarrow> string \<Rightarrow> kind \<Rightarrow> sender \<Rightarrow> string option \<Rightarrow> ('a, 'b) App_scheme \<Rightarrow> ('a, 'b) App_scheme \<times> 'a pending2" where
  "handleMessageSend2 e c ty senderRole fn st =
     (case activePatient st of
        None \<Rightarrow> (st, Done2)
      | Some targetPatient \<Rightarrow>
          (let updated = updatedPatient targetPatient (newMessage e c ty senderRole fn) (iso_touch e);
               st1 = st\<lparr>patients := replacePatient (pid targetPatient) updated (patients st)\<rparr>
           in if senderRole = DOCTOR then (st1, Done2)
              else if ty = TEXT then (st1\<lparr>isProcessing := True\<rparr>, Analysis2 targetPatient updated)
              else (st1\<lparr>isProcessing := True\<rparr>, Timer2 ty targetPatient updated)))"

text \<open>The continuation: lines 488 to 512 after the analysis call, lines 516 to 530 for the
  timer.\<close>

definition resume2 :: "env \<Rightarrow> 'a pending2 \<Rightarrow> ('a, 'b) App_scheme \<Rightarrow> ('a, 'b) App_scheme" where
  "resume2 e pend st =
     (case pend of
        Done2 \<Rightarrow> st
      | Analysis2 targetPatient updated \<Rightarrow>
          (let r = analyzePatientInput (iso_vitals e) (reply e)
           in st\<lparr>patients :=
                   replacePatient (pid targetPatient)
                     (finalPatient updated (systemMessage e (suggestedResponse r)) (insight r) (vitals r))
                     (patients st),
                 isProcessing := False\<rparr>)
      | Timer2 ty targetPatient updated \<Rightarrow>
          st\<lparr>patients :=
               replacePatient (pid targetPatient)
                 (ackPatient updated
                    (systemMessage e
                       (JStr (if ty = DOCUMENT
                              then ''Document received and filed in Clinical Records.''
                              else ''Image received. Adding to clinical record.''))))
                 (patients st),
             isProcessing := False\<rparr>)"

definition run2 ::
  "env \<Rightarrow> string \<Rightarrow> kind \<Rightarrow> sender \<Rightarrow> string option \<Rightarrow> ('a, 'b) App_scheme \<Rightarrow> settlement \<times> ('a, 'b) App_scheme" where
  "run2 e c ty senderRole fn st =
     (case handleMessageSend2 e c ty senderRole fn st of (st1, pend) \<Rightarrow> (Fulfilled, resume2 e pend st1))"

section \<open>Predicates and sample states used in the statements\<close>

text \<open>The first version's target id names a record of the list.\<close>

definition target_exists1 :: "('a, 'b) App_scheme \<Rightarrow> bool" where
  "target_exists1 st =
     (case resolveTarget st of None \<Rightarrow> False | Some t \<Rightarrow> list_ex (\<lambda>p. pid p = t) (patients st))"

text \<open>
  One state update of the first version: React applies the queued updaters one at a
  time, in some order, each to the state the previous one left. A run of the
  application under any interleaving of sends, analysis completions and feed events is
  a sequence of such updates.
\<close>

inductive update1 :: "'a Patient_scheme list \<Rightarrow> 'a Patient_scheme list \<Rightarrow> bool" where
  sent: "update1 prev (appendMessage t m ts prev)"
| analysed: "update1 prev (applyInsight t sm ins vs prev)"
| fed: "update1 prev (onInsert a ev prev)"

text \<open>
  The mock patients of the source, abridged (two of the vitals of the first patient, one
  of the second, no stored insight), with fixed timestamps where the source reads the
  clock at load time; the state after the patient has logged in, and the same state
  with a patient list that lacks her record, so that her id names no record.
\<close>

definition welcome_message :: Message where
  "welcome_message =
     \<lparr> mid = ''m1'', sender = SYSTEM,
       content = JStr ''Welcome to PAJR. Please share your readings via WhatsApp or here.'',
       fileName = None, timestamp = ''2024-05-01T07:43:20.000Z'', mtype = TEXT \<rparr>"

definition glucose_155 :: jsval where
  "glucose_155 =
     JObj [(''type'', JStr ''GLUCOSE''), (''value'', JNum 155), (''unit'', JStr ''mg/dL''),
           (''timestamp'', JStr ''2023-10-24T08:00:00Z'')]"

definition sarah :: Patient where
  "sarah =
     \<lparr> pid = ''P-1024'', pname = ''Sarah Devi'', age = 58, assignedDoctorId = ''D-001'',
       condition = [''Type 2 Diabetes'', ''Hypertension''],
       lastInteraction = ''2024-05-01T08:00:00.000Z'',
       riskStatus = RiskLevel_MEDIUM,
       vitalsHistory =
         [glucose_155,
          JObj [(''type'', JStr ''HEART_RATE''), (''value'', JNum 72), (''unit'', JStr ''bpm''),
                (''timestamp'', JStr ''2023-10-24T08:00:00Z'')]],
       messages = [welcome_message],
       latestInsight = None,
       isFlagged = False \<rparr>"

definition anil :: Patient where
  "anil =
     \<lparr> pid = ''P-5050'', pname = ''Anil Gupta'', age = 62, assignedDoctorId = ''D-001'',
       condition = [''Cardiac Follow-up''],
       lastInteraction = ''2024-05-01T08:00:00.000Z'',
       riskStatus = RiskLevel_CRITICAL,
       vitalsHistory =
         [JObj [(''type'', JStr ''BP_SYSTOLIC''), (''value'', JNum 168), (''unit'', JStr ''mmHg''),
                (''timestamp'', JStr ''2024-05-01T08:00:00.000Z'')]],
       messages =
         [\<lparr> mid = ''crit1'', sender = PATIENT,
            content = JStr ''Feeling slightly dizzy since morning.'',
            fileName = None, timestamp = ''2024-05-01T08:00:00.000Z'', mtype = TEXT \<rparr>],
       latestInsight = None,
       isFlagged = True \<rparr>"

definition MOCK_PATIENTS :: "Patient list" where
  "MOCK_PATIENTS = [sarah, anil]"

definition patient_session :: "unit App" where
  "patient_session =
     \<lparr> currentUser = Some \<lparr> uid = ''P-1024'', uname = ''Sarah Devi'', role = PATIENT,
                            phoneNumber = ''9876543210'' \<rparr>,
       patients = MOCK_PATIENTS, activePatientId = Some ''P-1024'', isProcessing = False \<rparr>"

definition stray_session :: "unit App" where
  "stray_session =
     \<lparr> currentUser = Some \<lparr> uid = ''P-1024'', uname = ''Sarah Devi'', role = PATIENT,
                            phoneNumber = ''9876543210'' \<rparr>,
       patients = [anil], activePatientId = Some ''P-1024'', isProcessing = False \<rparr>"

text \<open>A row delivered by the feed, and the reply of the spec's glucose scenario.\<close>

definition feed_message :: Message where
  "feed_message =
     \<lparr> mid = ''4711'', sender = DOCTOR, content = JStr ''Please recheck after lunch.'',
       fileName = None, timestamp = ''2024-05-01T08:00:01.700Z'', mtype = TEXT \<rparr>"

definition glucose_reply :: jsval where
  "glucose_reply =
     JObj [(''summary'', JStr ''Fasting glucose 220 reported.''), (''riskLevel'', JStr ''HIGH''),
           (''confidenceScore'', JNum 1), (''themes'', JArr [JStr ''Glycemic Instability'']),
           (''reasoning'', JArr [JStr ''Glucose above 200'']),
           (''extractedVitals'',
              JArr [JObj [(''type'', JStr ''GLUCOSE''), (''value'', JNum 220),
                          (''unit'', JStr ''mg/dL'')]]),
           (''suggestedResponse'', JStr ''Noted your reading of 220. A clinician will review shortly.'')]"

text \<open>
  Clock readings and collaborator outcome of four sends: a text sent at millisecond
  1714550400000 and answered two seconds later; an upload one second after the text,
  whose timer fires 1500 ms later; an upload in the same millisecond as the text; and a
  text sent one millisecond after the first answer arrived.
\<close>

definition env_of :: "nat \<Rightarrow> string \<Rightarrow> gen_outcome \<Rightarrow> nat \<Rightarrow> string \<Rightarrow> env" where
  "env_of ms t out ms' t' =
     \<lparr> now_send = ms, iso_send = t, iso_touch = t, reply = out,
       iso_vitals = frozen_clock t', now_reply = ms', iso_reply = t' \<rparr>"

definition e_text :: env where
  "e_text = env_of 1714550400000 ''2024-05-01T08:00:00.000Z'' (Parsed glucose_reply)
              1714550402000 ''2024-05-01T08:00:02.000Z''"

definition e_image :: env where
  "e_image = env_of 1714550401000 ''2024-05-01T08:00:01.000Z'' Rejected
               1714550402500 ''2024-05-01T08:00:02.500Z''"

definition e_same :: env where
  "e_same = env_of 1714550400000 ''2024-05-01T08:00:00.000Z'' Rejected
              1714550401500 ''2024-05-01T08:00:01.500Z''"

definition e_next :: env where
  "e_next = env_of 1714550402001 ''2024-05-01T08:00:02.001Z'' Rejected
              1714550404000 ''2024-05-01T08:00:04.000Z''"

text \<open>
  Two more sends, for a slow analysis: a text sent at millisecond 1714550400000 and
  answered four seconds later, and a second text sent three seconds after the first
  and answered two seconds after that. Both answers are the glucose reply.
\<close>

definition e_slow :: env where
  "e_slow = env_of 1714550400000 ''2024-05-01T08:00:00.000Z'' (Parsed glucose_reply)
              1714550404000 ''2024-05-01T08:00:04.000Z''"

definition e_second :: env where
  "e_second = env_of 1714550403000 ''2024-05-01T08:00:03.000Z'' (Parsed glucose_reply)
                1714550405000 ''2024-05-01T08:00:05.000Z''"

section \<open>Properties of the analysis service\<close>

lemma map_of_put: "map_of (put k v kvs) k' = (if k' = k then Some v else map_of kvs k')"
  by (induction kvs) auto

lemma read_prop_stamp:
  "k \<noteq> ''timestamp'' \<Longrightarrow> read_prop (stamp t (JObj kvs)) k = read_prop (JObj kvs) k"
  by (simp add: stamp_def map_of_put)

lemma length_stamp_from: "length (stamp_from clock n vs) = length vs"
  by (induction vs arbitrary: n) auto

lemma nth_stamp_from:
  "i < length vs \<Longrightarrow> stamp_from clock n vs ! i = stamp (clock (n + i)) (vs ! i)"
proof (induction vs arbitrary: n i)
  case Nil
  then show ?case by simp
next
  case (Cons v vs)
  then show ?case by (cases i) auto
qed

text \<open>
  Claim C1, as amended. When the collaborator call rejects (a raised error, or a timeout
  signalled by the client) or its reply does not parse, \<open>analyzePatientInput\<close> returns
  (it has no failing result at all) the fixed fallback: risk level MEDIUM, confidence
  score 0, themes ["System Error"], reasoning ["AI System Error - Fallback"], missing
  data ["Complete analysis failed"], action suggestion "Manual Review", a non-empty
  neutral suggested response, and no vitals.
\<close>

theorem analyzePatientInput_failure_fallback:
  "analyzePatientInput clock Rejected = fallback \<and>
   analyzePatientInput clock Unparsable = fallback \<and>
   riskLevel (insight fallback) = RiskLevel_MEDIUM \<and>
   confidenceScore (insight fallback) = JNum 0 \<and>
   themes (insight fallback) = JArr [JStr ''System Error''] \<and>
   reasoning (insight fallback) = JArr [JStr ''AI System Error - Fallback''] \<and>
   missingData (insight fallback) = JArr [JStr ''Complete analysis failed''] \<and>
   clinicalActionSuggestion (insight fallback) = JStr ''Manual Review'' \<and>
   suggestedResponse fallback =
     JStr ''We have received your message. A care coordinator will review it shortly.'' \<and>
   vitals fallback = []"
  by (simp add: analyzePatientInput_def fallback_def)

text \<open>
  Claim C1 as stated fails: on a rejected call the reasoning is not
  ["Analysis failed (em dash) fallback"] and the missing data is not
  ["Complete analysis unavailable"]. The em dash is written as its three UTF-8 bytes.
\<close>

theorem fallback_strings_differ:
  "reasoning (insight (analyzePatientInput (frozen_clock ''2024-05-01T08:00:00.000Z'') Rejected))
     \<noteq> JArr [JStr (''Analysis failed '' @ [CHR 0xE2, CHR 0x80, CHR 0x94] @ '' fallback'')]
   \<and> missingData (insight (analyzePatientInput (frozen_clock ''2024-05-01T08:00:00.000Z'') Rejected))
     \<noteq> JArr [JStr ''Complete analysis unavailable'']"
  by (simp add: analyzePatientInput_def fallback_def)

text \<open>
  Claim C3, as amended. On the success path, for every reply whose \<open>extractedVitals\<close> is
  an array, the returned risk level is the reply's \<open>riskLevel\<close> value as it came, with no
  check against the four levels, and every element of the array is returned, in order,
  with a timestamp added: a vital keeps its \<open>type\<close> whatever that is, none is dropped,
  and no error is raised.
\<close>

theorem analyzePatientInput_success_unchecked:
  "read_prop data ''extractedVitals'' = JArr vs \<Longrightarrow>
   riskLevel (insight (analyzePatientInput clock (Parsed data))) = read_prop data ''riskLevel'' \<and>
   length (vitals (analyzePatientInput clock (Parsed data))) = length vs \<and>
   (\<forall>i<length vs. vitals (analyzePatientInput clock (Parsed data)) ! i = stamp (clock i) (vs ! i)) \<and>
   (\<forall>i<length vs. \<forall>kvs. vs ! i = JObj kvs \<longrightarrow>
      read_prop (vitals (analyzePatientInput clock (Parsed data)) ! i) ''type''
        = read_prop (vs ! i) ''type'')"
proof -
  assume ev: "read_prop data ''extractedVitals'' = JArr vs"
  then have nn: "\<not> nullish data" by (cases data) auto
  from ev nn have vs: "vitals (analyzePatientInput clock (Parsed data)) = stamp_from clock 0 vs"
    by (simp add: analyzePatientInput_def mapData_def or_else_def)
  from ev nn have rl: "riskLevel (insight (analyzePatientInput clock (Parsed data)))
      = read_prop data ''riskLevel''"
    by (simp add: analyzePatientInput_def mapData_def or_else_def)
  show ?thesis
    unfolding vs rl
    by (auto simp: length_stamp_from nth_stamp_from read_prop_stamp simp del: read_prop.simps)
qed

theorem analyzePatientInput_success_unchecked_witness:
  "read_prop (JObj [(''riskLevel'', JStr ''HIGH''),
                    (''extractedVitals'',
                       JArr [JObj [(''type'', JStr ''GLUCOSE''), (''value'', JNum 220),
                                   (''unit'', JStr ''mg/dL'')]])]) ''extractedVitals''
     = JArr [JObj [(''type'', JStr ''GLUCOSE''), (''value'', JNum 220), (''unit'', JStr ''mg/dL'')]]
   \<and> riskLevel (insight (analyzePatientInput (frozen_clock ''2024-05-01T08:00:00.000Z'')
        (Parsed (JObj [(''riskLevel'', JStr ''HIGH''),
                       (''extractedVitals'',
                          JArr [JObj [(''type'', JStr ''GLUCOSE''), (''value'', JNum 220),
                                      (''unit'', JStr ''mg/dL'')]])])))) = JStr ''HIGH''
   \<and> length (vitals (analyzePatientInput (frozen_clock ''2024-05-01T08:00:00.000Z'')
        (Parsed (JObj [(''riskLevel'', JStr ''HIGH''),
                       (''extractedVitals'',
                          JArr [JObj [(''type'', JStr ''GLUCOSE''), (''value'', JNum 220),
                                      (''unit'', JStr ''mg/dL'')]])])))) = 1"
  using analyzePatientInput_success_unchecked
    [of "JObj [(''riskLevel'', JStr ''HIGH''),
               (''extractedVitals'',
                  JArr [JObj [(''type'', JStr ''GLUCOSE''), (''value'', JNum 220),
                              (''unit'', JStr ''mg/dL'')]])]"
        "[JObj [(''type'', JStr ''GLUCOSE''), (''value'', JNum 220), (''unit'', JStr ''mg/dL'')]]"
        "frozen_clock ''2024-05-01T08:00:00.000Z''"]
  by simp

text \<open>
  Claim C3 as stated fails: a reply with the risk level "SEVERE" and a vital of type
  "MOOD" is returned with that level, which is none of the four, and with the vital in
  the list, although "MOOD" is not in the vocabulary.
\<close>

theorem unknown_level_and_vital_kept:
  "riskLevel (insight (analyzePatientInput (frozen_clock ''2024-05-01T08:00:00.000Z'')
        (Parsed (JObj [(''summary'', JStr ''Low mood''), (''riskLevel'', JStr ''SEVERE''),
                       (''confidenceScore'', JNum 1), (''themes'', JArr []), (''reasoning'', JArr []),
                       (''extractedVitals'',
                          JArr [JObj [(''type'', JStr ''MOOD''), (''value'', JNum 3),
                                      (''unit'', JStr ''pts'')]]),
                       (''suggestedResponse'', JStr ''Noted.'')])))) \<notin> set known_levels
   \<and> vitals (analyzePatientInput (frozen_clock ''2024-05-01T08:00:00.000Z'')
        (Parsed (JObj [(''summary'', JStr ''Low mood''), (''riskLevel'', JStr ''SEVERE''),
                       (''confidenceScore'', JNum 1), (''themes'', JArr []), (''reasoning'', JArr []),
                       (''extractedVitals'',
                          JArr [JObj [(''type'', JStr ''MOOD''), (''value'', JNum 3),
                                      (''unit'', JStr ''pts'')]]),
                       (''suggestedResponse'', JStr ''Noted.'')])))
     = [JObj [(''type'', JStr ''MOOD''), (''value'', JNum 3), (''unit'', JStr ''pts''),
              (''timestamp'', JStr ''2024-05-01T08:00:00.000Z'')]]
   \<and> JStr ''MOOD'' \<notin> set vital_vocabulary"
  by (simp add: analyzePatientInput_def mapData_def or_else_def stamp_def frozen_clock_def
      known_levels_def vital_vocabulary_def RiskLevel_LOW_def RiskLevel_MEDIUM_def
      RiskLevel_HIGH_def RiskLevel_CRITICAL_def)

section \<open>Properties of the state updates\<close>

lemma length_onInsert: "length (onInsert a ev prev) = length prev"
  by (simp add: onInsert_def split: option.splits)

lemma length_appendMessage: "length (appendMessage t m ts prev) = length prev"
  by (simp add: appendMessage_def)

lemma length_applyInsight: "length (applyInsight t sm ins vs prev) = length prev"
  by (simp add: applyInsight_def)

lemma length_replacePatient: "length (replacePatient t x prev) = length prev"
  by (simp add: replacePatient_def)

lemma nth_onInsert:
  "i < length prev \<Longrightarrow> onInsert a (Some m) prev ! i =
     (if pid (prev ! i) \<noteq> a then prev ! i
      else if list_ex (\<lambda>x. mid x = mid m) (messages (prev ! i)) then prev ! i
      else (prev ! i)\<lparr>messages := messages (prev ! i) @ [m]\<rparr>)"
  by (simp add: onInsert_def)

lemma nth_appendMessage:
  "i < length prev \<Longrightarrow> appendMessage t m ts prev ! i =
     (if pid (prev ! i) = t
      then (prev ! i)\<lparr>messages := messages (prev ! i) @ [m], lastInteraction := ts\<rparr>
      else prev ! i)"
  by (simp add: appendMessage_def)

lemma nth_applyInsight:
  "i < length prev \<Longrightarrow> applyInsight t sm ins vs prev ! i =
     (if pid (prev ! i) = t
      then (prev ! i)\<lparr>messages := messages (prev ! i) @ [sm],
                      riskStatus := riskLevel ins,
                      latestInsight := Some ins,
                      vitalsHistory := vitalsHistory (prev ! i) @ vs,
                      isFlagged := (riskLevel ins = RiskLevel_HIGH \<or> riskLevel ins = RiskLevel_CRITICAL)\<rparr>
      else prev ! i)"
  by (simp add: applyInsight_def)

lemma nth_replacePatient:
  "i < length prev \<Longrightarrow> replacePatient t x prev ! i = (if pid (prev ! i) = t then x else prev ! i)"
  by (simp add: replacePatient_def)

lemma onInsert_twice: "onInsert a ev (onInsert a ev prev) = onInsert a ev prev"
proof (cases ev)
  case None
  then show ?thesis by (simp add: onInsert_def)
next
  case (Some m)
  show ?thesis
    unfolding Some
    by (rule nth_equalityI) (auto simp: length_onInsert nth_onInsert list_ex_iff)
qed

lemmas sample_defs = patient_session_def stray_session_def MOCK_PATIENTS_def sarah_def anil_def
  welcome_message_def feed_message_def glucose_155_def glucose_reply_def env_of_def
  e_text_def e_image_def e_same_def e_next_def

lemmas handler_defs = run1_def run2_def handleMessageSend1_def handleMessageSend2_def
  resume1_def resume2_def resolveTarget_def activePatient_def appendMessage_def applyInsight_def
  replacePatient_def updatedPatient_def finalPatient_def ackPatient_def newMessage_def
  systemMessage_def analyzePatientInput_def fallback_def mapData_def or_else_def stamp_def
  frozen_clock_def Let_def

text \<open>
  Claim C4. The realtime merge is idempotent: for every patient list and every event,
  delivering the event a second time changes nothing. A message whose id already occurs
  in the active patient's record is discarded, and one whose id does not occur is
  appended at the end of that record's messages.
\<close>

theorem onInsert_idempotent:
  "onInsert a ev (onInsert a ev prev) = onInsert a ev prev \<and>
   length (onInsert a (Some m) prev) = length prev \<and>
   (\<forall>i<length prev. pid (prev ! i) = a \<longrightarrow>
      messages (onInsert a (Some m) prev ! i) =
        (if list_ex (\<lambda>x. mid x = mid m) (messages (prev ! i)) then messages (prev ! i)
         else messages (prev ! i) @ [m]))"
  by (simp add: onInsert_twice length_onInsert nth_onInsert)

theorem onInsert_idempotent_witness:
  "0 < length MOCK_PATIENTS \<and> pid (MOCK_PATIENTS ! 0) = ''P-1024'' \<and>
   onInsert ''P-1024'' (Some feed_message) (onInsert ''P-1024'' (Some feed_message) MOCK_PATIENTS)
     = onInsert ''P-1024'' (Some feed_message) MOCK_PATIENTS \<and>
   messages (onInsert ''P-1024'' (Some feed_message) MOCK_PATIENTS ! 0)
     = [welcome_message, feed_message]"
  using onInsert_idempotent [of "''P-1024''" "Some feed_message" MOCK_PATIENTS feed_message]
  by (simp add: sample_defs)

text \<open>
  Claim C5. After every application of an insight, in either version, the record of the
  target patient has the insight's risk level as its risk status, whatever the status
  was before, and is flagged exactly when that level is HIGH or CRITICAL.
\<close>

theorem insight_flag_consistent:
  "(\<forall>i<length prev. pid (prev ! i) = t \<longrightarrow>
      riskStatus (applyInsight t sm ins vs prev ! i) = riskLevel ins \<and>
      isFlagged (applyInsight t sm ins vs prev ! i) =
        (riskStatus (applyInsight t sm ins vs prev ! i) \<in> {RiskLevel_HIGH, RiskLevel_CRITICAL})) \<and>
   (\<forall>i<length prev. pid (prev ! i) = t \<longrightarrow>
      riskStatus (replacePatient t (finalPatient up sm ins vs) prev ! i) = riskLevel ins \<and>
      isFlagged (replacePatient t (finalPatient up sm ins vs) prev ! i) =
        (riskStatus (replacePatient t (finalPatient up sm ins vs) prev ! i)
           \<in> {RiskLevel_HIGH, RiskLevel_CRITICAL}))"
  by (simp add: nth_applyInsight nth_replacePatient finalPatient_def)

theorem insight_flag_consistent_witness:
  "1 < length MOCK_PATIENTS \<and> pid (MOCK_PATIENTS ! 1) = ''P-5050'' \<and>
   riskStatus (MOCK_PATIENTS ! 1) = RiskLevel_CRITICAL \<and>
   riskStatus (applyInsight ''P-5050'' feed_message (insight fallback) [] MOCK_PATIENTS ! 1)
     = RiskLevel_MEDIUM \<and>
   isFlagged (applyInsight ''P-5050'' feed_message (insight fallback) [] MOCK_PATIENTS ! 1) = False \<and>
   isFlagged (replacePatient ''P-5050'' (finalPatient anil feed_message (insight fallback) [])
                MOCK_PATIENTS ! 1) = False"
  using insight_flag_consistent
    [of MOCK_PATIENTS "''P-5050''" feed_message "insight fallback" "[]" anil]
  by (simp add: sample_defs fallback_def RiskLevel_MEDIUM_def RiskLevel_HIGH_def
      RiskLevel_CRITICAL_def)

text \<open>
  Claim C8. The claim asks that every merge of extracted readings leaves the vitals
  history one longer per new reading, with every prior entry kept. Evaluated on the
  second version, on the logged-in patient's state: the patient sends a text A, uploads
  an image while A's analysis is in flight, the upload's timer fires and clears the
  processing flag, the patient sends a text B, A's analysis completes and then B's
  does, each with one glucose reading. After A's completion the history has three
  entries, the third being A's reading. B's completion merges one reading into the
  record captured when B was sent, which has two entries, and replaces the state's
  record by the result: the history has three entries again, and A's reading is gone.
\<close>

theorem stale_snapshot_drops_vitals:
  "(case handleMessageSend2 e_slow ''glucose 220 this morning'' TEXT PATIENT None patient_session of
      (st1, pendA) \<Rightarrow>
        (case handleMessageSend2 e_image ''blob:photo'' IMAGE PATIENT (Some ''photo.jpg'') st1 of
           (st2, pendI) \<Rightarrow>
             (case handleMessageSend2 e_second ''still 220 after lunch'' TEXT PATIENT None
                     (resume2 e_image pendI st2) of
                (st4, pendB) \<Rightarrow>
                   isProcessing (resume2 e_image pendI st2) = False \<and>
                   length (vitals (analyzePatientInput (iso_vitals e_second) (reply e_second))) = 1 \<and>
                   map (\<lambda>v. read_prop v ''timestamp'')
                       (vitalsHistory (patients (resume2 e_slow pendA st4) ! 0))
                     = [JStr ''2023-10-24T08:00:00Z'', JStr ''2023-10-24T08:00:00Z'',
                        JStr ''2024-05-01T08:00:04.000Z''] \<and>
                   map (\<lambda>v. read_prop v ''timestamp'')
                       (vitalsHistory
                          (patients (resume2 e_second pendB (resume2 e_slow pendA st4)) ! 0))
                     = [JStr ''2023-10-24T08:00:00Z'', JStr ''2023-10-24T08:00:00Z'',
                        JStr ''2024-05-01T08:00:05.000Z''])))"
  by (simp add: sample_defs e_slow_def e_second_def handler_defs)

text \<open>
  Claim C10. Every state update of the pipeline (the optimistic append, the application
  of an insight, the feed merge, and the second version's replacement of a record, which
  serves its append, its insight application and its acknowledgment) keeps the length of
  the patient list and leaves every record whose id is not the target id exactly as it
  was.
\<close>

theorem other_patients_unchanged:
  "length (appendMessage t m ts prev) = length prev \<and>
   length (applyInsight t sm ins vs prev) = length prev \<and>
   length (onInsert t ev prev) = length prev \<and>
   length (replacePatient t x prev) = length prev \<and>
   (\<forall>i<length prev. pid (prev ! i) \<noteq> t \<longrightarrow>
      appendMessage t m ts prev ! i = prev ! i \<and>
      applyInsight t sm ins vs prev ! i = prev ! i \<and>
      onInsert t ev prev ! i = prev ! i \<and>
      replacePatient t x prev ! i = prev ! i)"
proof (cases ev)
  case None
  then show ?thesis
    by (simp add: length_appendMessage length_applyInsight length_replacePatient
        nth_appendMessage nth_applyInsight nth_replacePatient onInsert_def)
next
  case (Some m')
  then show ?thesis
    by (simp add: length_appendMessage length_applyInsight length_onInsert length_replacePatient
        nth_appendMessage nth_applyInsight nth_onInsert nth_replacePatient)
qed

theorem other_patients_unchanged_witness:
  "1 < length MOCK_PATIENTS \<and> pid (MOCK_PATIENTS ! 1) \<noteq> ''P-1024'' \<and>
   appendMessage ''P-1024'' feed_message ''2024-05-01T08:00:01.700Z'' MOCK_PATIENTS ! 1 = anil \<and>
   applyInsight ''P-1024'' feed_message (insight fallback) [glucose_155] MOCK_PATIENTS ! 1 = anil \<and>
   onInsert ''P-1024'' (Some feed_message) MOCK_PATIENTS ! 1 = anil \<and>
   replacePatient ''P-1024'' sarah MOCK_PATIENTS ! 1 = anil"
  using other_patients_unchanged
    [of "''P-1024''" feed_message "''2024-05-01T08:00:01.700Z''" MOCK_PATIENTS feed_message
        "insight fallback" "[glucose_155]" "Some feed_message" sarah]
  by (simp add: MOCK_PATIENTS_def sarah_def anil_def)


section \<open>Properties of the message handler\<close>

lemma appendMessage_absent:
  "\<not> list_ex (\<lambda>p. pid p = t) prev \<Longrightarrow> appendMessage t m ts prev = prev"
  by (auto simp: appendMessage_def list_ex_iff intro: map_idI)

lemma find_absent: "\<not> list_ex P xs \<Longrightarrow> find P xs = None"
  by (simp add: find_None_iff list_ex_iff)

text \<open>
  Claim C6, as amended. For every call of the handler whose patient id references no
  existing record (the first version resolves no target id or one that no record has;
  the second version finds no active patient), the call returns normally: its promise
  is fulfilled, no error of any kind is raised, and the patient records are unchanged.
\<close>

theorem unknown_patient_silent_return:
  "(\<not> target_exists1 st \<longrightarrow>
      fst (run1 e c ty senderRole fn st) = Fulfilled \<and>
      patients (snd (run1 e c ty senderRole fn st)) = patients st) \<and>
   (activePatient st = None \<longrightarrow> run2 e c ty senderRole fn st = (Fulfilled, st))"
proof -
  have v1: "patients (snd (run1 e c ty senderRole fn st)) = patients st"
    if absent: "\<not> target_exists1 st"
  proof (cases "resolveTarget st")
    case None
    then show ?thesis by (simp add: run1_def handleMessageSend1_def resume1_def)
  next
    case (Some t)
    with absent have "\<not> list_ex (\<lambda>p. pid p = t) (patients st)"
      by (simp add: target_exists1_def)
    with Some show ?thesis
      by (simp add: run1_def handleMessageSend1_def resume1_def Let_def appendMessage_absent
          find_absent)
  qed
  have f1: "fst (run1 e c ty senderRole fn st) = Fulfilled"
    by (simp add: run1_def split: prod.splits)
  have v2: "run2 e c ty senderRole fn st = (Fulfilled, st)" if "activePatient st = None"
    using that by (simp add: run2_def handleMessageSend2_def resume2_def)
  from v1 f1 v2 show ?thesis by blast
qed

theorem unknown_patient_silent_return_witness:
  "\<not> target_exists1 stray_session \<and> activePatient stray_session = None \<and>
   patients (snd (run1 e_text ''Please call me'' TEXT PATIENT None stray_session)) = [anil] \<and>
   run2 e_text ''Please call me'' TEXT PATIENT None stray_session = (Fulfilled, stray_session)"
  using unknown_patient_silent_return
    [of stray_session e_text "''Please call me''" TEXT PATIENT None]
  by (simp add: target_exists1_def resolveTarget_def activePatient_def stray_session_def
      MOCK_PATIENTS_def sarah_def anil_def)

text \<open>
  Claim C6 as stated fails: a send by the patient P-1024 when no record has that id is
  not rejected with an InvalidPatient error (nor with any other); in both versions the
  promise is fulfilled.
\<close>

theorem unknown_patient_not_rejected:
  "\<not> target_exists1 stray_session \<and> activePatient stray_session = None \<and>
   fst (run1 e_text ''Please call me'' TEXT PATIENT None stray_session) = Fulfilled \<and>
   fst (run1 e_text ''Please call me'' TEXT PATIENT None stray_session)
     \<noteq> RejectedWith ''InvalidPatient'' \<and>
   fst (run2 e_text ''Please call me'' TEXT PATIENT None stray_session) = Fulfilled \<and>
   fst (run2 e_text ''Please call me'' TEXT PATIENT None stray_session)
     \<noteq> RejectedWith ''InvalidPatient''"
  by (simp add: target_exists1_def sample_defs handler_defs)

text \<open>
  Claim C7. The claim asks that a patient's upload is acknowledged by exactly one SYSTEM
  message after the delay. Evaluated on the logged-in patient's state with an image
  upload: the first version suspends on its timer, not on the analysis call, and ends
  with the record holding the welcome message and the upload only (the timer just
  clears the processing flag), while the second version ends with the acknowledgment
  appended after them.
\<close>

theorem upload_without_acknowledgment:
  "snd (handleMessageSend1 e_image ''blob:photo'' IMAGE PATIENT None patient_session) = Timer1 \<and>
   messages (patients (snd (run1 e_image ''blob:photo'' IMAGE PATIENT None patient_session)) ! 0)
     = [welcome_message, newMessage e_image ''blob:photo'' IMAGE PATIENT None] \<and>
   messages (patients (snd (run2 e_image ''blob:photo'' IMAGE PATIENT None patient_session)) ! 0)
     = [welcome_message, newMessage e_image ''blob:photo'' IMAGE PATIENT None,
        systemMessage e_image (JStr ''Image received. Adding to clinical record.'')]"
  by (simp add: sample_defs handler_defs)

text \<open>
  Claim C9. The claim asks for ids that are unique also within one millisecond. The id
  is the decimal clock reading, so, evaluated on the logged-in patient's state: a text
  and an upload sent in the same millisecond get the same id; and the system reply,
  whose id is the reading at the reply plus one, gets the id of a message sent one
  millisecond after the reply arrived.
\<close>

theorem same_millisecond_same_id:
  "(case handleMessageSend1 e_text ''glucose 220 this morning'' TEXT PATIENT None patient_session of
      (st1, pend1) \<Rightarrow>
        (case handleMessageSend1 e_same ''https://example.com/file.pdf'' DOCUMENT PATIENT
                (Some ''labs.pdf'') st1 of
           (st2, pend2) \<Rightarrow>
              map mid (messages (patients st2 ! 0))
                = [''m1'', ''1714550400000'', ''1714550400000''])) \<and>
   (case run1 e_text ''glucose 220 this morning'' TEXT PATIENT None patient_session of
      (s, st1) \<Rightarrow>
        (case handleMessageSend1 e_next ''thank you'' TEXT PATIENT None st1 of
           (st2, pend2) \<Rightarrow>
              map mid (messages (patients st2 ! 0))
                = [''m1'', ''1714550400000'', ''1714550402001'', ''1714550402001'']))"
  by (simp add: sample_defs handler_defs toString.simps digit_char_def)

text \<open>
  Claim C2. The claim asks that no update ever loses a message of a record. Evaluated on
  the second version, on the logged-in patient's state: the patient sends a text, and
  uploads an image while the analysis is in flight; the record then holds both. When
  the analysis completes, the record is replaced by the one built from the patient
  captured before the upload: the image message is gone.
\<close>

theorem snapshot_overwrite_loses_message:
  "(case handleMessageSend2 e_text ''glucose 220 this morning'' TEXT PATIENT None patient_session of
      (st1, pend1) \<Rightarrow>
        (case handleMessageSend2 e_image ''blob:photo'' IMAGE PATIENT (Some ''photo.jpg'') st1 of
           (st2, pend2) \<Rightarrow>
              map mid (messages (patients st2 ! 0))
                = [''m1'', ''1714550400000'', ''1714550401000''] \<and>
              map mid (messages (patients (resume2 e_text pend1 st2) ! 0))
                = [''m1'', ''1714550400000'', ''1714550402001'']))"
  by (simp add: sample_defs handler_defs toString.simps digit_char_def)

section \<open>Further properties\<close>

lemma update1_keeps:
  "update1 prev cur \<Longrightarrow>
   length cur = length prev \<and>
   (\<forall>i<length prev. \<exists>ys. messages (cur ! i) = messages (prev ! i) @ ys)"
proof (induction rule: update1.induct)
  case (sent prev t m ts)
  then show ?case by (simp add: length_appendMessage nth_appendMessage)
next
  case (analysed prev t sm ins vs)
  then show ?case by (simp add: length_applyInsight nth_applyInsight)
next
  case (fed prev a ev)
  show ?case
  proof (cases ev)
    case None
    then show ?thesis by (simp add: onInsert_def)
  next
    case (Some m)
    then show ?thesis by (simp add: length_onInsert nth_onInsert)
  qed
qed

text \<open>
  In the first version no sequence of state updates, in whatever order the sends, the
  analysis completions and the feed events are applied, loses or reorders a message:
  every record's messages before the sequence are a prefix of its messages after it.
\<close>

theorem feed_version_keeps_messages:
  "update1\<^sup>*\<^sup>* prev cur \<Longrightarrow>
   length cur = length prev \<and>
   (\<forall>i<length prev. \<exists>ys. messages (cur ! i) = messages (prev ! i) @ ys)"
proof (induction rule: rtranclp_induct)
  case base
  then show ?case by simp
next
  case (step mid' cur)
  from update1_keeps [OF step.hyps(2)]
  have len: "length cur = length mid'"
    and ext: "\<forall>i<length mid'. \<exists>ys. messages (cur ! i) = messages (mid' ! i) @ ys"
    by simp_all
  from step.IH have len': "length mid' = length prev"
    and ext': "\<forall>i<length prev. \<exists>ys. messages (mid' ! i) = messages (prev ! i) @ ys"
    by simp_all
  show ?case
  proof (intro conjI allI impI)
    show "length cur = length prev" using len len' by simp
  next
    fix i assume i: "i < length prev"
    with ext' obtain ys where ys: "messages (mid' ! i) = messages (prev ! i) @ ys" by blast
    from i len' ext obtain zs where zs: "messages (cur ! i) = messages (mid' ! i) @ zs" by auto
    from ys zs have "messages (cur ! i) = messages (prev ! i) @ (ys @ zs)" by simp
    then show "\<exists>ys. messages (cur ! i) = messages (prev ! i) @ ys" ..
  qed
qed

theorem feed_version_keeps_messages_witness:
  "update1\<^sup>*\<^sup>* MOCK_PATIENTS
     (applyInsight ''P-1024'' welcome_message (insight fallback) []
        (onInsert ''P-1024'' (Some feed_message) MOCK_PATIENTS)) \<and>
   length (applyInsight ''P-1024'' welcome_message (insight fallback) []
        (onInsert ''P-1024'' (Some feed_message) MOCK_PATIENTS)) = length MOCK_PATIENTS"
proof -
  have "update1 MOCK_PATIENTS (onInsert ''P-1024'' (Some feed_message) MOCK_PATIENTS)"
    by (rule update1.fed)
  moreover have "update1 (onInsert ''P-1024'' (Some feed_message) MOCK_PATIENTS)
     (applyInsight ''P-1024'' welcome_message (insight fallback) []
        (onInsert ''P-1024'' (Some feed_message) MOCK_PATIENTS))"
    by (rule update1.analysed)
  ultimately have run: "update1\<^sup>*\<^sup>* MOCK_PATIENTS
     (applyInsight ''P-1024'' welcome_message (insight fallback) []
        (onInsert ''P-1024'' (Some feed_message) MOCK_PATIENTS))"
    by (meson rtranclp.rtrancl_into_rtrancl rtranclp.rtrancl_refl)
  from run feed_version_keeps_messages [OF run] show ?thesis by simp
qed

text \<open>
  In the second version a patient's upload, with nothing else happening before the
  timer fires, leaves the target record with the uploaded message and one SYSTEM
  acknowledgment appended to the messages the captured patient had.
\<close>

theorem upload_acknowledged_second_version:
  "activePatient st = Some tp \<Longrightarrow> ty \<noteq> TEXT \<Longrightarrow> i < length (patients st) \<Longrightarrow>
   pid (patients st ! i) = pid tp \<Longrightarrow>
   messages (patients (snd (run2 e c ty PATIENT fn st)) ! i)
     = messages tp @
       [newMessage e c ty PATIENT fn,
        systemMessage e (JStr (if ty = DOCUMENT
                               then ''Document received and filed in Clinical Records.''
                               else ''Image received. Adding to clinical record.''))]"
  by (simp add: run2_def handleMessageSend2_def resume2_def Let_def length_replacePatient
      nth_replacePatient updatedPatient_def ackPatient_def)

theorem upload_acknowledged_second_version_witness:
  "activePatient patient_session = Some sarah \<and> DOCUMENT \<noteq> TEXT \<and>
   0 < length (patients patient_session) \<and> pid (patients patient_session ! 0) = pid sarah \<and>
   messages (patients (snd (run2 e_same ''https://example.com/file.pdf'' DOCUMENT PATIENT
                              (Some ''labs.pdf'') patient_session)) ! 0)
     = [welcome_message,
        newMessage e_same ''https://example.com/file.pdf'' DOCUMENT PATIENT (Some ''labs.pdf''),
        systemMessage e_same (JStr ''Document received and filed in Clinical Records.'')]"
proof -
  have a: "activePatient patient_session = Some sarah"
    by (simp add: activePatient_def patient_session_def MOCK_PATIENTS_def sarah_def)
  have b: "0 < length (patients patient_session)"
    and c: "pid (patients patient_session ! 0) = pid sarah"
    by (simp_all add: patient_session_def MOCK_PATIENTS_def)
  from upload_acknowledged_second_version [OF a _ b c, of DOCUMENT e_same
      "''https://example.com/file.pdf''" "Some ''labs.pdf''"] a b c
  show ?thesis by (simp add: sarah_def)
qed

text \<open>
  A reply that parses but has the wrong shape (it is \<^verbatim>\<open>null\<close>, or its
  \<open>extractedVitals\<close> is a truthy value that is no array) raises a TypeError inside the
  \<^verbatim>\<open>try\<close> block and gives the same fallback.
\<close>

theorem malformed_reply_fallback:
  "nullish data \<or>
     (truthy (read_prop data ''extractedVitals'') \<and> map_stamp clock (read_prop data ''extractedVitals'') = None)
   \<Longrightarrow> analyzePatientInput clock (Parsed data) = fallback"
  by (auto simp: analyzePatientInput_def mapData_def or_else_def)

theorem malformed_reply_fallback_witness:
  "truthy (read_prop (JObj [(''riskLevel'', JStr ''LOW''), (''extractedVitals'', JStr ''none'')])
             ''extractedVitals'') \<and>
   analyzePatientInput (frozen_clock ''2024-05-01T08:00:00.000Z'')
     (Parsed (JObj [(''riskLevel'', JStr ''LOW''), (''extractedVitals'', JStr ''none'')])) = fallback"
  using malformed_reply_fallback
    [of "JObj [(''riskLevel'', JStr ''LOW''), (''extractedVitals'', JStr ''none'')]"
        "frozen_clock ''2024-05-01T08:00:00.000Z''"]
  by simp

text \<open>
  In the first version the vitals merge is a pure append to the record the state holds:
  the target record's vitals history after the update is its history before followed
  by the new readings, so its length grows by their number, also when a new reading
  equals an old entry.
\<close>

theorem first_version_vitals_append:
  "\<forall>i<length prev. pid (prev ! i) = t \<longrightarrow>
      vitalsHistory (applyInsight t sm ins vs prev ! i) = vitalsHistory (prev ! i) @ vs \<and>
      length (vitalsHistory (applyInsight t sm ins vs prev ! i))
        = length (vitalsHistory (prev ! i)) + length vs"
  by (simp add: nth_applyInsight)

theorem first_version_vitals_append_witness:
  "0 < length MOCK_PATIENTS \<and> pid (MOCK_PATIENTS ! 0) = ''P-1024'' \<and>
   glucose_155 \<in> set (vitalsHistory (MOCK_PATIENTS ! 0)) \<and>
   length (vitalsHistory (MOCK_PATIENTS ! 0)) = 2 \<and>
   length (vitalsHistory
     (applyInsight ''P-1024'' feed_message (insight fallback) [glucose_155, glucose_155]
        MOCK_PATIENTS ! 0)) = 4"
  using first_version_vitals_append
    [of MOCK_PATIENTS "''P-1024''" feed_message "insight fallback" "[glucose_155, glucose_155]"]
  by (simp add: sample_defs)

end
